theory Spec2Isabelle
  imports Complex_Main
begin

section \<open>Content store and My List\<close>

text \<open>
  The application keeps its content in \<^verbatim>\<open>AppState.contentData\<close>: an optional hero item
  and a list of categories, each with an id and an array of items. Of an item, the
  functions below inspect the \<^verbatim>\<open>id\<close> (named \<open>item_id\<close> here), the \<^verbatim>\<open>title\<close> and the
  \<^verbatim>\<open>type\<close> (named \<open>ctype\<close>). Items of a loaded category have passed
  \<^verbatim>\<open>validateContentItem\<close> and carry a type; the hero is validated for its id and title
  only, so its type may be absent. \<^verbatim>\<open>AppState.contentData\<close> is \<^verbatim>\<open>null\<close> until the data is
  loaded.
\<close>

record content =
  item_id :: string
  title :: string
  ctype :: "string option"

record category =
  cat_id :: string
  items :: "content list"

record content_data =
  hero :: "content option"
  categories :: "category list"

text \<open>
  The part of the application state that the My List operations read and write:
  \<^verbatim>\<open>AppState.contentData\<close> and the \<^verbatim>\<open>netflix-my-list\<close> entry of localStorage (the saved
  item array; a failing \<^verbatim>\<open>setItem\<close> is caught and logged by the source).
\<close>

record app_state =
  contentData :: "content_data option"
  myListStorage :: "content list option"

text \<open>
  \<^verbatim>\<open>getPlaceholderContent()\<close>, the data \<^verbatim>\<open>handleContentLoadError\<close> installs when the fetch
  fails: a hero without a \<^verbatim>\<open>type\<close> field and four empty categories.
\<close>

definition getPlaceholderContent :: content_data where
  "getPlaceholderContent =
     \<lparr>hero = Some \<lparr>item_id = ''hero-featured'', title = ''Featured Content'', ctype = None\<rparr>,
      categories = [\<lparr>cat_id = ''trending'', items = []\<rparr>,
                    \<lparr>cat_id = ''popular-movies'', items = []\<rparr>,
                    \<lparr>cat_id = ''tv-shows'', items = []\<rparr>,
                    \<lparr>cat_id = ''my-list'', items = []\<rparr>]\<rparr>"

datatype js_error = TypeError

text \<open>The loop of \<^verbatim>\<open>getContentById\<close> over the categories: the first item whose id matches.\<close>

fun search_categories :: "category list \<Rightarrow> string \<Rightarrow> content option" where
  "search_categories [] contentId = None"
| "search_categories (c # cs) contentId =
     (case find (\<lambda>item. item_id item = contentId) (items c) of
        Some item \<Rightarrow> Some item
      | None \<Rightarrow> search_categories cs contentId)"

definition getContentById :: "app_state \<Rightarrow> string \<Rightarrow> content option" where
  "getContentById s contentId =
     (case contentData s of
        None \<Rightarrow> None
      | Some cd \<Rightarrow>
          (case hero cd of
             Some h \<Rightarrow>
               if item_id h = contentId then Some h
               else search_categories (categories cd) contentId
           | None \<Rightarrow> search_categories (categories cd) contentId))"

definition getContentByCategory :: "app_state \<Rightarrow> string \<Rightarrow> content list" where
  "getContentByCategory s categoryId =
     (case contentData s of
        None \<Rightarrow> []
      | Some cd \<Rightarrow>
          (case find (\<lambda>cat. cat_id cat = categoryId) (categories cd) of
             Some cat \<Rightarrow> items cat
           | None \<Rightarrow> []))"

text \<open>
  \<^verbatim>\<open>categories.find(cat => cat.id === 'my-list')\<close> returns a reference to the first
  matching category, and the source mutates that object in place. \<open>update_first\<close> is
  that mutation on the list of categories.
\<close>

fun update_first :: "('a \<Rightarrow> bool) \<Rightarrow> ('a \<Rightarrow> 'a) \<Rightarrow> 'a list \<Rightarrow> 'a list" where
  "update_first p f [] = []"
| "update_first p f (x # xs) = (if p x then f x # xs else x # update_first p f xs)"

definition is_my_list :: "category \<Rightarrow> bool" where
  "is_my_list cat = (cat_id cat = ''my-list'')"

definition saveMyListToStorage :: "app_state \<Rightarrow> app_state" where
  "saveMyListToStorage s =
     (case contentData s of
        None \<Rightarrow> s
      | Some cd \<Rightarrow>
          (case find is_my_list (categories cd) of
             Some found \<Rightarrow> s\<lparr>myListStorage := Some (items found)\<rparr>
           | None \<Rightarrow> s))"

definition addToMyList :: "string \<Rightarrow> app_state \<Rightarrow> bool \<times> app_state" where
  "addToMyList contentId s =
     (case getContentById s contentId of
        None \<Rightarrow> (False, s)
      | Some c \<Rightarrow>
          (case contentData s of
             None \<Rightarrow> (False, s)
           | Some cd \<Rightarrow>
               (case find is_my_list (categories cd) of
                  None \<Rightarrow> (False, s)
                | Some found \<Rightarrow>
                    if list_ex (\<lambda>item. item_id item = contentId) (items found) then (False, s)
                    else
                      (True,
                       saveMyListToStorage
                         (s\<lparr>contentData := Some (cd\<lparr>categories :=
                              update_first is_my_list (\<lambda>cat. cat\<lparr>items := items cat @ [c]\<rparr>)
                                (categories cd)\<rparr>)\<rparr>)))))"

text \<open>
  \<^verbatim>\<open>removeFromMyList\<close> reads \<^verbatim>\<open>AppState.contentData.categories\<close> with no null check, so
  it throws a TypeError while no content data is loaded.
\<close>

definition removeFromMyList :: "string \<Rightarrow> app_state \<Rightarrow> js_error + (bool \<times> app_state)" where
  "removeFromMyList contentId s =
     (case contentData s of
        None \<Rightarrow> Inl TypeError
      | Some cd \<Rightarrow>
          (case find is_my_list (categories cd) of
             None \<Rightarrow> Inr (False, s)
           | Some found \<Rightarrow>
               (let initialLength = length (items found);
                    kept = filter (\<lambda>item. item_id item \<noteq> contentId) (items found);
                    s' = s\<lparr>contentData := Some (cd\<lparr>categories :=
                           update_first is_my_list (\<lambda>cat. cat\<lparr>items := kept\<rparr>)
                             (categories cd)\<rparr>)\<rparr>;
                    removed = (length kept < initialLength)
                in if removed then Inr (True, saveMyListToStorage s') else Inr (False, s'))))"

section \<open>Row scrolling\<close>

text \<open>
  JavaScript numbers are modelled as rationals: every quantity below (pixel offsets,
  milliseconds, velocities) is a finite number, and the arithmetic is taken exact, so
  rounding of doubles is not represented. The one place where the source can leave the
  finite numbers, the division in \<^verbatim>\<open>updateScrollButtons\<close>, is modelled with \<open>jsnum\<close>.
\<close>

datatype jsnum = Fin rat | NaN | PosInfinity | NegInfinity

definition js_div :: "rat \<Rightarrow> rat \<Rightarrow> jsnum" where
  "js_div a b =
     (if b = 0 then (if a = 0 then NaN else if 0 < a then PosInfinity else NegInfinity)
      else Fin (a / b))"

fun js_times :: "jsnum \<Rightarrow> rat \<Rightarrow> jsnum" where
  "js_times (Fin a) k = Fin (a * k)"
| "js_times NaN k = NaN"
| "js_times PosInfinity k = (if k = 0 then NaN else if 0 < k then PosInfinity else NegInfinity)"
| "js_times NegInfinity k = (if k = 0 then NaN else if 0 < k then NegInfinity else PosInfinity)"

text \<open>\<^verbatim>\<open>Math.round\<close>: the nearest integer, ties towards positive infinity.\<close>

fun js_round :: "jsnum \<Rightarrow> jsnum" where
  "js_round (Fin a) = Fin (of_int \<lfloor>a + 1 / 2\<rfloor>)"
| "js_round x = x"

text \<open>Decimal notation of an integer, as a template literal prints it.\<close>

definition digit_char :: "nat \<Rightarrow> char" where
  "digit_char d = ''0123456789'' ! d"

fun decimal_digits :: "nat \<Rightarrow> string \<Rightarrow> string" where
  "decimal_digits n acc =
     (if n div 10 = 0 then digit_char (n mod 10) # acc
      else decimal_digits (n div 10) (digit_char (n mod 10) # acc))"

declare decimal_digits.simps [simp del]

definition js_int_text :: "int \<Rightarrow> string" where
  "js_int_text i =
     (if 0 \<le> i then decimal_digits (nat i) [] else CHR ''-'' # decimal_digits (nat (- i)) [])"

text \<open>
  The text a template literal inserts for a number. It is applied to results of
  \<^verbatim>\<open>Math.round\<close> only, so a finite argument is an integer.
\<close>

fun js_toString :: "jsnum \<Rightarrow> string" where
  "js_toString (Fin a) = js_int_text \<lfloor>a\<rfloor>"
| "js_toString NaN = ''NaN''"
| "js_toString PosInfinity = ''Infinity''"
| "js_toString NegInfinity = ''-Infinity''"

record slider =
  scrollLeft :: rat
  scrollWidth :: rat
  clientWidth :: rat

record button =
  opacity :: string
  pointerEvents :: string
  disabled :: bool
  ariaHidden :: string
  ariaLabel :: string

definition currentPosition :: "slider \<Rightarrow> jsnum" where
  "currentPosition s =
     js_round (js_times (js_div (scrollLeft s) (scrollWidth s - clientWidth s)) 100)"

definition tolerance :: rat where
  "tolerance = 2"

definition updateLeft :: "slider \<Rightarrow> button \<Rightarrow> button" where
  "updateLeft s b =
     (if scrollLeft s \<le> tolerance
      then b\<lparr>opacity := ''0.3'', pointerEvents := ''none'', disabled := True,
             ariaHidden := ''true''\<rparr>
      else b\<lparr>opacity := '''', pointerEvents := '''', disabled := False,
             ariaHidden := ''false''\<rparr>)
     \<lparr>ariaLabel := ''Scroll left (currently at '' @ js_toString (currentPosition s) @ ''%)''\<rparr>"

definition updateRight :: "slider \<Rightarrow> button \<Rightarrow> button" where
  "updateRight s b =
     (if scrollLeft s + clientWidth s \<ge> scrollWidth s - tolerance
      then b\<lparr>opacity := ''0.3'', pointerEvents := ''none'', disabled := True,
             ariaHidden := ''true''\<rparr>
      else b\<lparr>opacity := '''', pointerEvents := '''', disabled := False,
             ariaHidden := ''false''\<rparr>)
     \<lparr>ariaLabel := ''Scroll right (currently at '' @ js_toString (currentPosition s) @ ''%)''\<rparr>"

text \<open>
  \<^verbatim>\<open>updateScrollButtons(slider, leftBtn, rightBtn)\<close> returns at once when one of the three
  elements is missing; otherwise it rewrites both buttons from the slider's metrics.
\<close>

definition updateScrollButtons ::
  "slider option \<Rightarrow> button option \<Rightarrow> button option \<Rightarrow> button option \<times> button option" where
  "updateScrollButtons so lo ro =
     (case (so, lo, ro) of
        (Some s, Some l, Some r) \<Rightarrow> (Some (updateLeft s l), Some (updateRight s r))
      | _ \<Rightarrow> (lo, ro))"

text \<open>
  The edge predicates in the words of the specification, to be compared with the
  conditions of \<^verbatim>\<open>updateScrollButtons\<close>.
\<close>

definition isAtStart :: "slider \<Rightarrow> bool" where
  "isAtStart s = (scrollLeft s \<le> 2)"

definition isAtEnd :: "slider \<Rightarrow> bool" where
  "isAtEnd s = (scrollLeft s + clientWidth s \<ge> scrollWidth s - 2)"

text \<open>
  An animation is the closure \<^verbatim>\<open>animateScroll\<close> together with the variables it captured:
  which of the two scroll functions created it (they differ in the easing curve and in
  what happens on completion), \<^verbatim>\<open>startPosition\<close>, \<^verbatim>\<open>distance\<close>, \<^verbatim>\<open>startTime\<close> and
  \<^verbatim>\<open>duration\<close>.
\<close>

datatype scroller = SmoothScrollTo | SmoothScrollToPosition

record scroll_anim =
  a_scroller :: scroller
  a_startPosition :: rat
  a_distance :: rat
  a_startTime :: rat
  a_duration :: rat

text \<open>
  One content row: the slider element, its two buttons, the row's entry of
  \<^verbatim>\<open>AppState.scrollPositions\<close>, the frame callbacks requested with
  \<^verbatim>\<open>requestAnimationFrame\<close> and not yet run (in request order), the number of pending
  50 ms timers that refresh the buttons, and the variables of the closure created by
  \<^verbatim>\<open>setupTouchScrolling\<close>, which the touch and the mouse handlers share. Assigning
  \<^verbatim>\<open>slider.scrollLeft\<close> stores the assigned value; the style properties
  (\<^verbatim>\<open>scrollBehavior\<close>, \<^verbatim>\<open>cursor\<close>) are not represented.
\<close>

record row =
  slider :: slider
  leftBtn :: button
  rightBtn :: button
  scrollPosition :: rat
  raf :: "scroll_anim list"
  refreshTimers :: nat
  startX :: rat
  startY :: rat
  startScrollLeft :: rat
  isScrolling :: bool
  isDragging :: bool
  startTime :: rat
  velocityX :: rat
  lastX :: rat
  lastTime :: rat

definition getScrollAmount :: "rat \<Rightarrow> rat" where
  "getScrollAmount innerWidth =
     (let cardWidth = (if innerWidth < 640 then 150 else if innerWidth < 1024 then 180 else 200);
          gap = (if innerWidth < 640 then 12 else if innerWidth < 1024 then 16 else 20);
          cardsToScroll = (if innerWidth < 640 then 2 else if innerWidth < 1024 then 3 else 4)
      in (cardWidth + gap) * cardsToScroll)"

definition refreshButtons :: "row \<Rightarrow> row" where
  "refreshButtons r =
     (case updateScrollButtons (Some (slider r)) (Some (leftBtn r)) (Some (rightBtn r)) of
        (Some l, Some b) \<Rightarrow> r\<lparr>leftBtn := l, rightBtn := b\<rparr>
      | _ \<Rightarrow> r)"

definition progress :: "scroll_anim \<Rightarrow> rat \<Rightarrow> rat" where
  "progress a currentTime = min ((currentTime - a_startTime a) / a_duration a) 1"

fun easing :: "scroller \<Rightarrow> rat \<Rightarrow> rat" where
  "easing SmoothScrollTo p =
     (if p < 1 / 2 then 4 * p * p * p else 1 - (- 2 * p + 2) ^ 3 / 2)"
| "easing SmoothScrollToPosition p = 1 - (1 - p) ^ 3"

text \<open>
  One run of the frame callback \<^verbatim>\<open>animateScroll(currentTime)\<close>: it writes the interpolated
  offset and, while \<^verbatim>\<open>progress < 1\<close>, requests itself again. On completion the callback
  of \<^verbatim>\<open>smoothScrollTo\<close> records the offset and refreshes the buttons; the one of
  \<^verbatim>\<open>smoothScrollToPosition\<close> does nothing more.
\<close>

definition animateScroll :: "scroll_anim \<Rightarrow> rat \<Rightarrow> row \<Rightarrow> row" where
  "animateScroll a currentTime r =
     (let p = progress a currentTime;
          r1 = r\<lparr>slider := (slider r)\<lparr>scrollLeft :=
                 a_startPosition a + a_distance a * easing (a_scroller a) p\<rparr>\<rparr>
      in if p < 1 then r1\<lparr>raf := raf r1 @ [a]\<rparr>
         else (case a_scroller a of
                 SmoothScrollTo \<Rightarrow>
                   refreshButtons (r1\<lparr>scrollPosition := scrollLeft (slider r1)\<rparr>)
               | SmoothScrollToPosition \<Rightarrow> r1))"

text \<open>
  An animation frame at time \<open>t\<close>: the browser takes the callbacks requested so far and
  runs them in request order; a callback requested during the frame waits for the next.
\<close>

definition frame :: "rat \<Rightarrow> row \<Rightarrow> row" where
  "frame t r = fold (\<lambda>a. animateScroll a t) (raf r) (r\<lparr>raf := []\<rparr>)"







text \<open>
  \<^verbatim>\<open>smoothScrollTo(targetPosition, duration = 300)\<close> of \<^verbatim>\<open>setupRowScrolling\<close> and
  \<^verbatim>\<open>smoothScrollToPosition(element, targetPosition, duration = 300)\<close>; \<open>now\<close> is the value
  of \<^verbatim>\<open>performance.now()\<close> at the call. Neither looks at the callbacks already requested.
\<close>

definition smoothScrollTo :: "rat \<Rightarrow> rat \<Rightarrow> rat \<Rightarrow> row \<Rightarrow> row" where
  "smoothScrollTo targetPosition duration now r =
     r\<lparr>raf := raf r @
       [\<lparr>a_scroller = SmoothScrollTo,
         a_startPosition = scrollLeft (slider r),
         a_distance = targetPosition - scrollLeft (slider r),
         a_startTime = now,
         a_duration = duration\<rparr>]\<rparr>"

definition smoothScrollToPosition :: "rat \<Rightarrow> rat \<Rightarrow> rat \<Rightarrow> row \<Rightarrow> row" where
  "smoothScrollToPosition targetPosition duration now r =
     r\<lparr>raf := raf r @
       [\<lparr>a_scroller = SmoothScrollToPosition,
         a_startPosition = scrollLeft (slider r),
         a_distance = targetPosition - scrollLeft (slider r),
         a_startTime = now,
         a_duration = duration\<rparr>]\<rparr>"

text \<open>
  The click listeners of the two buttons; \<open>innerWidth\<close> is \<^verbatim>\<open>window.innerWidth\<close> and
  \<open>now\<close> the value of \<^verbatim>\<open>performance.now()\<close>.
\<close>

definition leftTarget :: "rat \<Rightarrow> row \<Rightarrow> rat" where
  "leftTarget innerWidth r = max 0 (scrollLeft (slider r) - getScrollAmount innerWidth)"

definition rightTarget :: "rat \<Rightarrow> row \<Rightarrow> rat" where
  "rightTarget innerWidth r =
     (let maxScroll = scrollWidth (slider r) - clientWidth (slider r)
      in min maxScroll (scrollLeft (slider r) + getScrollAmount innerWidth))"

definition scrollLeftHandler :: "rat \<Rightarrow> rat \<Rightarrow> row \<Rightarrow> row" where
  "scrollLeftHandler innerWidth now r = smoothScrollTo (leftTarget innerWidth r) 300 now r"

definition scrollRightHandler :: "rat \<Rightarrow> rat \<Rightarrow> row \<Rightarrow> row" where
  "scrollRightHandler innerWidth now r = smoothScrollTo (rightTarget innerWidth r) 300 now r"

text \<open>
  A click on a button, by pointer or through the keydown listener's \<^verbatim>\<open>click()\<close>: a
  button that \<^verbatim>\<open>updateScrollButtons\<close> has disabled dispatches no click event, so its
  listener does not run.
\<close>

definition clickLeft :: "rat \<Rightarrow> rat \<Rightarrow> row \<Rightarrow> row" where
  "clickLeft innerWidth now r =
     (if disabled (leftBtn r) then r else scrollLeftHandler innerWidth now r)"

definition clickRight :: "rat \<Rightarrow> rat \<Rightarrow> row \<Rightarrow> row" where
  "clickRight innerWidth now r =
     (if disabled (rightBtn r) then r else scrollRightHandler innerWidth now r)"

text \<open>
  The debounced listener of the slider's \<^verbatim>\<open>scroll\<close> event and the debounced listener of
  the window's \<^verbatim>\<open>resize\<close> event, when their timers fire.
\<close>

definition scrollListener :: "row \<Rightarrow> row" where
  "scrollListener r = refreshButtons (r\<lparr>scrollPosition := scrollLeft (slider r)\<rparr>)"

definition resizeListener :: "row \<Rightarrow> row" where
  "resizeListener r = refreshButtons r"

text \<open>The 50 ms timer set by \<^verbatim>\<open>handleTouchEnd\<close> and \<^verbatim>\<open>handleMouseUp\<close>, when it fires.\<close>

definition fireRefreshTimer :: "row \<Rightarrow> row" where
  "fireRefreshTimer r =
     (if refreshTimers r = 0 then r
      else refreshButtons
             (r\<lparr>refreshTimers := refreshTimers r - 1, scrollPosition := scrollLeft (slider r)\<rparr>))"

record touch =
  clientX :: rat
  clientY :: rat

definition handleTouchStart :: "touch \<Rightarrow> rat \<Rightarrow> row \<Rightarrow> row" where
  "handleTouchStart t now r =
     r\<lparr>startX := clientX t, startY := clientY t,
       startScrollLeft := scrollLeft (slider r),
       startTime := now, lastX := clientX t, lastTime := now,
       isScrolling := False, isDragging := False, velocityX := 0\<rparr>"

text \<open>
  The body of the second conditional of \<^verbatim>\<open>handleTouchMove\<close>, run for a sample of a
  drag: the velocity from the last two samples, the new offset clamped to the scroll
  range, and the sample remembered.
\<close>

definition dragSample :: "touch \<Rightarrow> rat \<Rightarrow> row \<Rightarrow> row" where
  "dragSample t currentTime r =
     (let currentX = clientX t;
          deltaX = startX r - currentX;
          timeDelta = currentTime - lastTime r;
          r1 = (if timeDelta > 0 then r\<lparr>velocityX := (lastX r - currentX) / timeDelta\<rparr>
                else r);
          newScrollLeft = startScrollLeft r1 + deltaX;
          sl = slider r1
      in r1\<lparr>slider := sl\<lparr>scrollLeft :=
              max 0 (min (scrollWidth sl - clientWidth sl) newScrollLeft)\<rparr>,
            lastX := currentX, lastTime := currentTime\<rparr>)"

text \<open>
  \<^verbatim>\<open>handleTouchMove\<close>, with \<^verbatim>\<open>e.touches[0]\<close> and \<^verbatim>\<open>performance.now()\<close> as arguments. The
  second component of the result tells whether \<^verbatim>\<open>e.preventDefault()\<close> was called, that is
  whether the browser's own scrolling is suppressed for this sample. While neither flag
  is set the sample is classified: horizontal sets both flags and goes on to the drag,
  vertical returns, and anything else falls through to the second conditional, which
  the unset flags make false.
\<close>

definition handleTouchMove :: "touch option \<Rightarrow> rat \<Rightarrow> row \<Rightarrow> row \<times> bool" where
  "handleTouchMove e currentTime r =
     (case e of
        None \<Rightarrow> (r, False)
      | Some t \<Rightarrow>
          (let deltaX = startX r - clientX t;
               deltaY = startY r - clientY t;
               absX = \<bar>deltaX\<bar>;
               absY = \<bar>deltaY\<bar>
           in if \<not> isScrolling r \<and> \<not> isDragging r
              then
                (if absX > absY \<and> absX > 10
                 then (dragSample t currentTime (r\<lparr>isScrolling := True, isDragging := True\<rparr>),
                       True)
                 else if absY > absX \<and> absY > 10 then (r, False)
                 else (r, False))
              else if isScrolling r \<and> isDragging r then (dragSample t currentTime r, True)
              else (r, False)))"

text \<open>
  \<^verbatim>\<open>handleTouchEnd\<close>, with \<^verbatim>\<open>performance.now()\<close> as argument. The 100 ms timer that resets
  \<^verbatim>\<open>style.scrollBehavior\<close> is not represented.
\<close>

definition handleTouchEnd :: "rat \<Rightarrow> row \<Rightarrow> row" where
  "handleTouchEnd currentTime r =
     (if \<not> isDragging r then r
      else
        (let duration = currentTime - startTime r;
             r1 = (if \<bar>velocityX r\<bar> > 1 / 2 \<and> duration < 300
                   then
                     (let momentum = velocityX r * 200;
                          targetScrollLeft = scrollLeft (slider r) + momentum;
                          maxScroll = scrollWidth (slider r) - clientWidth (slider r);
                          finalScrollLeft = max 0 (min maxScroll targetScrollLeft)
                      in smoothScrollToPosition finalScrollLeft 400 currentTime r)
                   else r)
         in r1\<lparr>refreshTimers := refreshTimers r1 + 1,
               isDragging := False, isScrolling := False\<rparr>))"

text \<open>A run of move samples of one contact, each with its time.\<close>

definition touchMoves :: "(touch option \<times> rat) list \<Rightarrow> row \<Rightarrow> row" where
  "touchMoves samples r = fold (\<lambda>(e, t) r'. fst (handleTouchMove e t r')) samples r"

text \<open>
  The mouse handlers of the same closure. Of the event they read \<^verbatim>\<open>clientX\<close> only; its
  \<^verbatim>\<open>timeStamp\<close> is kept so that a mouse gesture has a duration and a velocity to speak
  of. \<^verbatim>\<open>handleMouseDown\<close> sets \<^verbatim>\<open>isDragging\<close> alone; \<^verbatim>\<open>handleMouseUp\<close> takes no
  argument, clears \<^verbatim>\<open>isDragging\<close>, sets the 50 ms refresh timer and never starts an
  animation. Their calls of \<^verbatim>\<open>preventDefault\<close> are not represented.
\<close>

record mouse_event =
  m_clientX :: rat
  m_timeStamp :: rat

definition handleMouseDown :: "mouse_event \<Rightarrow> row \<Rightarrow> row" where
  "handleMouseDown e r =
     r\<lparr>startX := m_clientX e, startScrollLeft := scrollLeft (slider r), isDragging := True\<rparr>"

definition handleMouseMove :: "mouse_event \<Rightarrow> row \<Rightarrow> row" where
  "handleMouseMove e r =
     (if \<not> isDragging r then r
      else
        (let deltaX = startX r - m_clientX e;
             newScrollLeft = startScrollLeft r + deltaX;
             sl = slider r
         in r\<lparr>slider := sl\<lparr>scrollLeft :=
                max 0 (min (scrollWidth sl - clientWidth sl) newScrollLeft)\<rparr>\<rparr>))"

definition handleMouseUp :: "row \<Rightarrow> row" where
  "handleMouseUp r =
     (if \<not> isDragging r then r
      else r\<lparr>isDragging := False, refreshTimers := refreshTimers r + 1\<rparr>)"

text \<open>
  The events a row reacts to, and the row after a run of them. The three events whose
  handlers clear a flag of the gesture are singled out by \<open>ends_drag\<close>.
\<close>

datatype row_event =
    TouchStart touch rat
  | TouchMove "touch option" rat
  | TouchEnd rat
  | MouseDown mouse_event
  | MouseMove mouse_event
  | MouseUp mouse_event
  | ClickLeft rat rat
  | ClickRight rat rat
  | AnimationFrame rat
  | RefreshTimer
  | ScrollSettled
  | Resized

fun step :: "row_event \<Rightarrow> row \<Rightarrow> row" where
  "step (TouchStart t now) r = handleTouchStart t now r"
| "step (TouchMove e now) r = fst (handleTouchMove e now r)"
| "step (TouchEnd now) r = handleTouchEnd now r"
| "step (MouseDown e) r = handleMouseDown e r"
| "step (MouseMove e) r = handleMouseMove e r"
| "step (MouseUp e) r = handleMouseUp r"
| "step (ClickLeft w now) r = clickLeft w now r"
| "step (ClickRight w now) r = clickRight w now r"
| "step (AnimationFrame t) r = frame t r"
| "step RefreshTimer r = fireRefreshTimer r"
| "step ScrollSettled r = scrollListener r"
| "step Resized r = resizeListener r"

definition run :: "row_event list \<Rightarrow> row \<Rightarrow> row" where
  "run es r = fold step es r"

fun ends_drag :: "row_event \<Rightarrow> bool" where
  "ends_drag (TouchStart t now) = True"
| "ends_drag (TouchEnd now) = True"
| "ends_drag (MouseUp e) = True"
| "ends_drag e = False"

section \<open>Modal dialog\<close>

text \<open>
  The inner HTML of \<^verbatim>\<open>.modal-content\<close>: a placeholder (the page's initial markup and the
  loading state have no interactive element), or the markup that
  \<^verbatim>\<open>createModalContent(content)\<close> builds, which always contains the \<^verbatim>\<open>.modal-close\<close> button.
\<close>

datatype modal_body = Placeholder | Details content

text \<open>
  The modal as the source keeps it: \<^verbatim>\<open>AppState.currentModal\<close>, the overlay's \<^verbatim>\<open>hidden\<close>
  class and \<^verbatim>\<open>aria-hidden\<close> attribute, the scroll lock on \<^verbatim>\<open>document.body\<close>, the modal
  body, and the listeners that \<^verbatim>\<open>setupModalInteractions\<close> attaches: each handler is a
  closure created afresh, identified here by a number, remembered in a field of the
  application object and attached to the close button of the current body, to the
  overlay or to the document. The two listeners that \<^verbatim>\<open>setupModalSystem\<close> installs once
  for the lifetime of the page are not in these lists. Pending 100 ms population timers
  are kept in the order they were set, each with the content it captured; notifications
  and screen-reader announcements are logged in the order they are made.

  Setting \<^verbatim>\<open>innerHTML\<close> replaces the elements of the body, so the listeners of the old
  close button go with it. An exception that escapes a timer callback is logged in
  \<open>uncaught\<close>. Focus handling and \<^verbatim>\<open>setupModalActions\<close> (whose selectors depend on
  markup outside the modelled sources) are not represented.
\<close>

record modal =
  overlayPresent :: bool
  contentPresent :: bool
  currentModal :: "string option"
  overlayHidden :: bool
  overlayAriaHidden :: string
  bodyOverflow :: string
  bodyModalOpen :: bool
  modalBody :: modal_body
  closeClick :: "nat list"
  overlayClick :: "nat list"
  docKeydown :: "nat list"
  modalCloseHandler :: "nat option"
  modalOverlayClickHandler :: "nat option"
  modalKeydownHandler :: "nat option"
  nextHandler :: nat
  populateTimers :: "content list"
  notifications :: "(string \<times> string) list"
  announcements :: "string list"
  uncaught :: "js_error list"

text \<open>\<^verbatim>\<open>addEventListener\<close> ignores a listener that is already attached.\<close>

definition addEventListener :: "nat \<Rightarrow> nat list \<Rightarrow> nat list" where
  "addEventListener h hs = (if h \<in> set hs then hs else hs @ [h])"

definition removeEventListener :: "nat \<Rightarrow> nat list \<Rightarrow> nat list" where
  "removeEventListener h hs = removeAll h hs"

definition hasCloseButton :: "modal_body \<Rightarrow> bool" where
  "hasCloseButton b = (case b of Placeholder \<Rightarrow> False | Details c \<Rightarrow> True)"

definition removeModalEventListeners :: "modal \<Rightarrow> modal" where
  "removeModalEventListeners m =
     (let m1 = (case modalCloseHandler m of
                  Some h \<Rightarrow>
                    if hasCloseButton (modalBody m)
                    then m\<lparr>closeClick := removeEventListener h (closeClick m)\<rparr> else m
                | None \<Rightarrow> m);
          m2 = (case modalOverlayClickHandler m1 of
                  Some h \<Rightarrow>
                    if overlayPresent m1
                    then m1\<lparr>overlayClick := removeEventListener h (overlayClick m1)\<rparr> else m1
                | None \<Rightarrow> m1)
      in (case modalKeydownHandler m2 of
            Some h \<Rightarrow> m2\<lparr>docKeydown := removeEventListener h (docKeydown m2)\<rparr>
          | None \<Rightarrow> m2))"

definition setupModalInteractions :: "modal \<Rightarrow> modal" where
  "setupModalInteractions m =
     (let m0 = removeModalEventListeners m;
          m1 = (if hasCloseButton (modalBody m0)
                then m0\<lparr>modalCloseHandler := Some (nextHandler m0),
                        closeClick := addEventListener (nextHandler m0) (closeClick m0),
                        nextHandler := nextHandler m0 + 1\<rparr>
                else m0);
          m2 = m1\<lparr>modalOverlayClickHandler := Some (nextHandler m1),
                  overlayClick := addEventListener (nextHandler m1) (overlayClick m1),
                  nextHandler := nextHandler m1 + 1\<rparr>
      in m2\<lparr>modalKeydownHandler := Some (nextHandler m2),
            docKeydown := addEventListener (nextHandler m2) (docKeydown m2),
            nextHandler := nextHandler m2 + 1\<rparr>)"

text \<open>
  \<^verbatim>\<open>createModalContent(content)\<close> builds the markup of the body. It guards the optional
  \<^verbatim>\<open>cast\<close> and \<^verbatim>\<open>genres\<close> (arrays when present, as in the placeholder data), but
  evaluates \<^verbatim>\<open>content.type.replace('-', ' ')\<close> with no guard, which throws a TypeError
  for a record without a type.
\<close>

definition createModalContent :: "content \<Rightarrow> js_error + modal_body" where
  "createModalContent c = (case ctype c of None \<Rightarrow> Inl TypeError | Some t \<Rightarrow> Inr (Details c))"

text \<open>
  The callback that \<^verbatim>\<open>openModal\<close> hands to \<^verbatim>\<open>setTimeout(..., 100)\<close>, with the content it
  captured. It reads no state of the modal before it writes the body. Its first
  statement assigns the result of \<^verbatim>\<open>createModalContent\<close>; when that call throws, the
  callback ends there: the body is not assigned, no handler is attached and nothing is
  announced.
\<close>

definition populate :: "content \<Rightarrow> modal \<Rightarrow> modal" where
  "populate c m =
     (case createModalContent c of
        Inl e \<Rightarrow> m\<lparr>uncaught := uncaught m @ [e]\<rparr>
      | Inr html \<Rightarrow>
          (let m1 = setupModalInteractions (m\<lparr>modalBody := html, closeClick := []\<rparr>)
           in m1\<lparr>announcements := announcements m1 @
                   [''Modal opened for '' @ title c @ ''. Press Escape to close.'']\<rparr>))"

definition firePopulateTimer :: "modal \<Rightarrow> modal" where
  "firePopulateTimer m =
     (case populateTimers m of
        [] \<Rightarrow> m
      | c # cs \<Rightarrow> populate c (m\<lparr>populateTimers := cs\<rparr>))"

text \<open>All pending population timers fire, oldest first.\<close>

definition fireAllPopulateTimers :: "modal \<Rightarrow> modal" where
  "fireAllPopulateTimers m = fold populate (populateTimers m) (m\<lparr>populateTimers := []\<rparr>)"

definition openModal :: "app_state \<Rightarrow> string \<Rightarrow> modal \<Rightarrow> modal" where
  "openModal app contentId m =
     (if \<not> overlayPresent m \<or> \<not> contentPresent m then m
      else
        (case getContentById app contentId of
           None \<Rightarrow> m\<lparr>notifications := notifications m @ [(''Content not found'', ''error'')]\<rparr>
         | Some c \<Rightarrow>
             m\<lparr>currentModal := Some contentId,
               modalBody := Placeholder, closeClick := [],
               overlayHidden := False, overlayAriaHidden := ''false'',
               bodyOverflow := ''hidden'', bodyModalOpen := True,
               populateTimers := populateTimers m @ [c]\<rparr>))"

definition closeModal :: "modal \<Rightarrow> modal" where
  "closeModal m =
     (if \<not> overlayPresent m then m
      else
        (let m1 = removeModalEventListeners m
         in m1\<lparr>overlayHidden := True, overlayAriaHidden := ''true'',
               currentModal := None,
               bodyOverflow := '''', bodyModalOpen := False,
               announcements := announcements m1 @ [''Modal closed'']\<rparr>))"

text \<open>The modal of a freshly loaded page.\<close>

definition initialModal :: modal where
  "initialModal =
     \<lparr>overlayPresent = True, contentPresent = True, currentModal = None,
      overlayHidden = True, overlayAriaHidden = ''true'',
      bodyOverflow = '''', bodyModalOpen = False,
      modalBody = Placeholder,
      closeClick = [], overlayClick = [], docKeydown = [],
      modalCloseHandler = None, modalOverlayClickHandler = None, modalKeydownHandler = None,
      nextHandler = 0, populateTimers = [], notifications = [], announcements = [],
      uncaught = []\<rparr>"

section \<open>Example states\<close>

text \<open>
  A small loaded application: a hero item, one category with one item, and an empty
  My List.
\<close>

definition exampleHero :: content where
  "exampleHero =
     \<lparr>item_id = ''hero-featured'', title = ''Featured Content'', ctype = Some ''movie''\<rparr>"

definition exampleItem :: content where
  "exampleItem = \<lparr>item_id = ''m1'', title = ''Movie One'', ctype = Some ''movie''\<rparr>"

definition exampleData :: content_data where
  "exampleData =
     \<lparr>hero = Some exampleHero,
      categories = [\<lparr>cat_id = ''trending'', items = [exampleItem]\<rparr>,
                    \<lparr>cat_id = ''my-list'', items = []\<rparr>]\<rparr>"

definition exampleApp :: app_state where
  "exampleApp = \<lparr>contentData = Some exampleData, myListStorage = None\<rparr>"

text \<open>The application after a failed fetch: the placeholder data is installed.\<close>

definition fallbackApp :: app_state where
  "fallbackApp = \<lparr>contentData = Some getPlaceholderContent, myListStorage = None\<rparr>"

text \<open>
  The row of the specification's scenarios, 2000 px of content in an 800 px viewport,
  scrolled to \<open>x\<close>; a row whose content fits its viewport; and a button as the markup
  creates it.
\<close>

definition sliderAt :: "rat \<Rightarrow> slider" where
  "sliderAt x = \<lparr>scrollLeft = x, scrollWidth = 2000, clientWidth = 800\<rparr>"

definition fittingSlider :: slider where
  "fittingSlider = \<lparr>scrollLeft = 0, scrollWidth = 800, clientWidth = 800\<rparr>"

definition plainButton :: button where
  "plainButton =
     \<lparr>opacity = '''', pointerEvents = '''', disabled = False, ariaHidden = ''false'',
      ariaLabel = ''Scroll''\<rparr>"

text \<open>
  A row at rest at offset \<open>x\<close>, its buttons as \<^verbatim>\<open>updateScrollButtons\<close> sets them, and a
  flick on it: the finger goes down at (300, 100)
  at time 0 with the row at offset 300, and moves to (280, 100) at 100 ms and to
  (200, 100) at 200 ms.
\<close>

definition restingRow :: "rat \<Rightarrow> row" where
  "restingRow x =
     refreshButtons
       \<lparr>slider = sliderAt x, leftBtn = plainButton, rightBtn = plainButton,
        scrollPosition = x, raf = [], refreshTimers = 0,
        startX = 0, startY = 0, startScrollLeft = 0, isScrolling = False, isDragging = False,
        startTime = 0, velocityX = 0, lastX = 0, lastTime = 0\<rparr>"

definition flickRow :: row where
  "flickRow =
     touchMoves [(Some \<lparr>clientX = 280, clientY = 100\<rparr>, 100),
                 (Some \<lparr>clientX = 200, clientY = 100\<rparr>, 200)]
       (handleTouchStart \<lparr>clientX = 300, clientY = 100\<rparr> 0 (restingRow 300))"

text \<open>
  A contact that first moves down by 30 px, then left by 60 px: the finger goes down at
  (100, 100) at time 0 on a row at offset 300.
\<close>

definition touchedRow :: row where
  "touchedRow = handleTouchStart \<lparr>clientX = 100, clientY = 100\<rparr> 0 (restingRow 300)"

definition downSample :: "touch option" where
  "downSample = Some \<lparr>clientX = 100, clientY = 130\<rparr>"

definition leftSample :: "touch option" where
  "leftSample = Some \<lparr>clientX = 40, clientY = 130\<rparr>"







definition mouseMove100 :: mouse_event where
  "mouseMove100 = \<lparr>m_clientX = 200, m_timeStamp = 100\<rparr>"

definition mouseUp150 :: mouse_event where
  "mouseUp150 = \<lparr>m_clientX = 200, m_timeStamp = 150\<rparr>"




text \<open>
  During the flick, a second finger touches the row at 210 ms (the first finger,
  \<^verbatim>\<open>e.touches[0]\<close>, is at (200, 100)); or a mouse button is released over the document.
\<close>

definition secondFinger :: row where
  "secondFinger = step (TouchStart \<lparr>clientX = 200, clientY = 100\<rparr> 210) flickRow"

definition flickMouseUp :: row where
  "flickMouseUp = step (MouseUp mouseUp150) flickRow"

section \<open>My List: adding and removing\<close>

lemma search_categories_id:
  "search_categories cs i = Some c \<Longrightarrow> item_id c = i"
  by (induction cs) (auto split: option.splits dest: find_Some_iff[THEN iffD1])

lemma getContentById_id:
  "getContentById s i = Some c \<Longrightarrow> item_id c = i"
  by (auto simp: getContentById_def split: option.splits if_splits dest: search_categories_id)

lemma find_update_first:
  "find p xs = Some x \<Longrightarrow> p (f x) \<Longrightarrow> find p (update_first p f xs) = Some (f x)"
  by (induction xs) (auto split: if_splits)

lemma update_first_twice:
  "find p xs = Some x \<Longrightarrow> p (f x) \<Longrightarrow>
   update_first p g (update_first p f xs) = update_first p (g \<circ> f) xs"
  by (induction xs) (auto split: if_splits)

lemma update_first_same:
  "find p xs = Some x \<Longrightarrow> f x = x \<Longrightarrow> update_first p f xs = xs"
  by (induction xs) (auto split: if_splits)

lemma find_app:
  "find p (xs @ ys) = (case find p xs of Some x \<Rightarrow> Some x | None \<Rightarrow> find p ys)"
  by (induction xs) auto

text \<open>
  Appending the resolved item to a category never changes what its id resolves to: if the
  appended copy is met first, it is the same item.
\<close>

lemma search_categories_update:
  "search_categories cs (item_id c) = Some c \<Longrightarrow>
   search_categories (update_first p (\<lambda>cat. cat\<lparr>items := items cat @ [c]\<rparr>) cs) (item_id c)
     = Some c"
  by (induction cs) (auto split: option.splits if_splits simp: find_app)

lemma is_my_list_items [simp]: "is_my_list (cat\<lparr>items := xs\<rparr>) = is_my_list cat"
  by (simp add: is_my_list_def)

lemma filter_absent:
  "\<not> list_ex (\<lambda>item. item_id item = i) xs \<Longrightarrow> filter (\<lambda>item. item_id item \<noteq> i) xs = xs"
  by (induction xs) auto

lemma find_my_list_result: "find is_my_list cs = Some found \<Longrightarrow> is_my_list found"
  by (auto simp: find_Some_iff)

text \<open>
  Claim C10. Let the content data be loaded, let \<open>i\<close> resolve to the item \<open>c\<close>, and let
  My List exist and hold no item with id \<open>i\<close>. Then \<open>c\<close> has the id \<open>i\<close>;
  \<^verbatim>\<open>addToMyList(i)\<close> returns true and My List becomes the old list followed by \<open>c\<close>;
  a repeated \<^verbatim>\<open>addToMyList(i)\<close> returns false and leaves the state as it is;
  \<^verbatim>\<open>removeFromMyList(i)\<close> then returns true and gives back the content data from before
  the first add (only the saved copy in localStorage is new); and \<^verbatim>\<open>removeFromMyList(i)\<close>
  on the state where \<open>i\<close> is not in the list returns false and changes nothing.
\<close>

theorem myList_add_remove_roundtrip:
  assumes res: "getContentById s i = Some c"
      and cd: "contentData s = Some cd"
      and found: "find is_my_list (categories cd) = Some found"
      and fresh: "\<not> list_ex (\<lambda>item. item_id item = i) (items found)"
  shows "item_id c = i
       \<and> fst (addToMyList i s)
       \<and> getContentByCategory (snd (addToMyList i s)) ''my-list''
           = getContentByCategory s ''my-list'' @ [c]
       \<and> addToMyList i (snd (addToMyList i s)) = (False, snd (addToMyList i s))
       \<and> removeFromMyList i (snd (addToMyList i s))
           = Inr (True, s\<lparr>myListStorage := Some (items found)\<rparr>)
       \<and> removeFromMyList i s = Inr (False, s)"
proof -
  define added where
    "added = update_first is_my_list (\<lambda>cat. cat\<lparr>items := items cat @ [c]\<rparr>) (categories cd)"
  define s1 where
    "s1 = s\<lparr>contentData := Some (cd\<lparr>categories := added\<rparr>),
            myListStorage := Some (items found @ [c])\<rparr>"
  have idc: "item_id c = i"
    using res by (rule getContentById_id)
  have found_is: "is_my_list found"
    using found by (rule find_my_list_result)
  have find_added: "find is_my_list added = Some (found\<lparr>items := items found @ [c]\<rparr>)"
    unfolding added_def using found found_is by (simp add: find_update_first)
  have add1: "addToMyList i s = (True, s1)"
    using res cd found fresh find_added
    by (simp add: addToMyList_def saveMyListToStorage_def s1_def added_def)
  have cat: "getContentByCategory s1 ''my-list'' = getContentByCategory s ''my-list'' @ [c]"
    using cd found find_added
    by (simp add: getContentByCategory_def s1_def is_my_list_def[abs_def])
  have res1: "getContentById s1 i = Some c"
    using res cd idc
    by (auto simp: getContentById_def s1_def added_def search_categories_update
             split: option.splits if_splits)
  have add2: "addToMyList i s1 = (False, s1)"
    using res1 find_added idc
    by (simp add: addToMyList_def s1_def)
  have restored:
    "update_first is_my_list (\<lambda>cat. cat\<lparr>items := items found\<rparr>) added = categories cd"
  proof -
    have "update_first is_my_list (\<lambda>cat. cat\<lparr>items := items found\<rparr>) added
          = update_first is_my_list
              ((\<lambda>cat. cat\<lparr>items := items found\<rparr>) \<circ> (\<lambda>cat. cat\<lparr>items := items cat @ [c]\<rparr>))
              (categories cd)"
      unfolding added_def using found found_is by (simp add: update_first_twice)
    also have "\<dots> = categories cd"
      using found by (simp add: update_first_same)
    finally show ?thesis .
  qed
  have rem1: "removeFromMyList i s1 = Inr (True, s\<lparr>myListStorage := Some (items found)\<rparr>)"
    using find_added fresh idc restored found cd
    by (simp add: removeFromMyList_def s1_def saveMyListToStorage_def filter_absent Let_def)
  have rem0: "removeFromMyList i s = Inr (False, s)"
    using cd found fresh
    by (simp add: removeFromMyList_def filter_absent Let_def update_first_same)
  show ?thesis
    using idc add1 cat add2 rem1 rem0 by simp
qed

theorem myList_add_remove_roundtrip_witness:
  "getContentById exampleApp ''m1'' = Some exampleItem
   \<and> fst (addToMyList ''m1'' exampleApp)
   \<and> getContentByCategory (snd (addToMyList ''m1'' exampleApp)) ''my-list'' = [exampleItem]
   \<and> removeFromMyList ''m1'' (snd (addToMyList ''m1'' exampleApp))
       = Inr (True, exampleApp\<lparr>myListStorage := Some []\<rparr>)
   \<and> removeFromMyList ''m1'' exampleApp = Inr (False, exampleApp)"
proof -
  have res: "getContentById exampleApp ''m1'' = Some exampleItem"
    by (simp add: getContentById_def exampleApp_def exampleData_def exampleHero_def
          exampleItem_def)
  have cd: "contentData exampleApp = Some exampleData"
    by (simp add: exampleApp_def)
  have found: "find is_my_list (categories exampleData) = Some \<lparr>cat_id = ''my-list'', items = []\<rparr>"
    by (simp add: exampleData_def is_my_list_def)
  have fresh: "\<not> list_ex (\<lambda>item. item_id item = ''m1'') (items \<lparr>cat_id = ''my-list'', items = []\<rparr>)"
    by simp
  have empty: "getContentByCategory exampleApp ''my-list'' = []"
    by (simp add: getContentByCategory_def exampleApp_def exampleData_def)
  show ?thesis
    using myList_add_remove_roundtrip [OF res cd found fresh] res empty by simp
qed

section \<open>Scroll buttons\<close>

lemma js_int_text_25_50: "js_int_text 25 = ''25''" "js_int_text 50 = ''50''"
  by (simp_all add: js_int_text_def decimal_digits.simps digit_char_def)

lemma currentPosition_300: "currentPosition (sliderAt 300) = Fin 25"
  by code_simp

lemma currentPosition_600: "currentPosition (sliderAt 600) = Fin 50"
  by code_simp

text \<open>
  Claim C7, as stated, has the percentage label derived purely from the two edge
  predicates. It is not: at offsets 300 and 600 of the same row both predicates are
  false, and the labels read 25% and 50%.
\<close>

theorem label_not_from_predicates_counterexample:
  "isAtStart (sliderAt 300) = isAtStart (sliderAt 600)
   \<and> isAtEnd (sliderAt 300) = isAtEnd (sliderAt 600)
   \<and> ariaLabel (updateLeft (sliderAt 300) plainButton) = ''Scroll left (currently at 25%)''
   \<and> ariaLabel (updateLeft (sliderAt 600) plainButton) = ''Scroll left (currently at 50%)''
   \<and> ariaLabel (updateLeft (sliderAt 300) plainButton)
       \<noteq> ariaLabel (updateLeft (sliderAt 600) plainButton)"
proof -
  have "isAtStart (sliderAt 300) = isAtStart (sliderAt 600)"
       "isAtEnd (sliderAt 300) = isAtEnd (sliderAt 600)"
    by (simp_all add: sliderAt_def isAtStart_def isAtEnd_def)
  then show ?thesis
    by (simp add: updateLeft_def currentPosition_300 currentPosition_600 js_int_text_25_50)
qed

text \<open>
  Claim C7, amended. With all three elements present, \<^verbatim>\<open>updateScrollButtons\<close> tests
  exactly the two edge predicates of the specification (at start: offset at most 2; at
  end: offset plus viewport width at least scroll width minus 2). The disabled flag,
  \<^verbatim>\<open>aria-hidden\<close>, opacity and pointer-events of the left button are determined by the
  first predicate and those of the right button by the second, whatever the buttons
  were before. The percentage in both labels is computed from the slider's metrics,
  \<^verbatim>\<open>Math.round(scrollLeft / (scrollWidth - clientWidth) * 100)\<close>, not from the predicates.
\<close>

theorem edge_detector_buttons:
  "updateScrollButtons (Some s) (Some l) (Some r)
     = (Some (updateLeft s l), Some (updateRight s r))
   \<and> (scrollLeft s \<le> tolerance) = isAtStart s
   \<and> (scrollLeft s + clientWidth s \<ge> scrollWidth s - tolerance) = isAtEnd s
   \<and> disabled (updateLeft s l) = isAtStart s
   \<and> ariaHidden (updateLeft s l) = (if isAtStart s then ''true'' else ''false'')
   \<and> opacity (updateLeft s l) = (if isAtStart s then ''0.3'' else '''')
   \<and> pointerEvents (updateLeft s l) = (if isAtStart s then ''none'' else '''')
   \<and> disabled (updateRight s r) = isAtEnd s
   \<and> ariaHidden (updateRight s r) = (if isAtEnd s then ''true'' else ''false'')
   \<and> opacity (updateRight s r) = (if isAtEnd s then ''0.3'' else '''')
   \<and> pointerEvents (updateRight s r) = (if isAtEnd s then ''none'' else '''')
   \<and> ariaLabel (updateLeft s l)
       = ''Scroll left (currently at '' @
         js_toString (js_round (js_times
           (js_div (scrollLeft s) (scrollWidth s - clientWidth s)) 100)) @ ''%)''
   \<and> ariaLabel (updateRight s r)
       = ''Scroll right (currently at '' @
         js_toString (js_round (js_times
           (js_div (scrollLeft s) (scrollWidth s - clientWidth s)) 100)) @ ''%)''"
  by (simp add: updateScrollButtons_def updateLeft_def updateRight_def isAtStart_def
        isAtEnd_def tolerance_def currentPosition_def)

text \<open>
  Claim C9. For a row whose content does not overflow (scroll width equal to the
  viewport width, so the offset, lying between 0 and the maximal offset, is 0), the
  position is computed as 0 / 0 with no guard: it is NaN, and both labels read
  ``currently at NaN%''.
\<close>

theorem label_NaN_without_overflow:
  assumes "scrollWidth s = clientWidth s"
      and "0 \<le> scrollLeft s"
      and "scrollLeft s \<le> scrollWidth s - clientWidth s"
  shows "js_div (scrollLeft s) (scrollWidth s - clientWidth s) = NaN
       \<and> currentPosition s = NaN
       \<and> updateScrollButtons (Some s) (Some l) (Some r)
           = (Some (updateLeft s l), Some (updateRight s r))
       \<and> ariaLabel (updateLeft s l) = ''Scroll left (currently at NaN%)''
       \<and> ariaLabel (updateRight s r) = ''Scroll right (currently at NaN%)''"
  using assms
  by (simp add: updateScrollButtons_def updateLeft_def updateRight_def currentPosition_def
        js_div_def)

theorem label_NaN_without_overflow_witness:
  "scrollWidth fittingSlider = clientWidth fittingSlider
   \<and> currentPosition fittingSlider = NaN
   \<and> ariaLabel (updateLeft fittingSlider plainButton) = ''Scroll left (currently at NaN%)''
   \<and> ariaLabel (updateRight fittingSlider plainButton) = ''Scroll right (currently at NaN%)''"
proof -
  have h: "scrollWidth fittingSlider = clientWidth fittingSlider"
          "0 \<le> scrollLeft fittingSlider"
          "scrollLeft fittingSlider \<le> scrollWidth fittingSlider - clientWidth fittingSlider"
    by (simp_all add: fittingSlider_def)
  show ?thesis
    using label_NaN_without_overflow [OF h, of plainButton plainButton] h(1) by simp
qed

section \<open>Animation frames\<close>

text \<open>
  Facts about the frame loop that the theorems on scrolling share: when a callback
  requests itself again and when it completes, and the states of a row with one or two
  requested callbacks.
\<close>

lemma refreshButtons_eq:
  "refreshButtons r =
     r\<lparr>leftBtn := updateLeft (slider r) (leftBtn r),
       rightBtn := updateRight (slider r) (rightBtn r)\<rparr>"
  by (simp add: refreshButtons_def updateScrollButtons_def)

lemma restingRow_facts:
  "slider (restingRow x) = sliderAt x" "raf (restingRow x) = []"
  "\<not> isScrolling (restingRow x)" "\<not> isDragging (restingRow x)"
  "disabled (leftBtn (restingRow x)) = (x \<le> 2)"
  "disabled (rightBtn (restingRow x)) = (1198 \<le> x)"
  by (auto simp: restingRow_def refreshButtons_eq updateLeft_def updateRight_def sliderAt_def
        tolerance_def)

lemma refreshButtons_slider [simp]: "slider (refreshButtons r) = slider r"
  by (simp add: refreshButtons_def updateScrollButtons_def)

lemma refreshButtons_raf [simp]: "raf (refreshButtons r) = raf r"
  by (simp add: refreshButtons_def updateScrollButtons_def)

lemma easing_one [simp]: "easing k 1 = 1"
  by (cases k) simp_all




















section \<open>Momentum after a drag\<close>

lemma handleTouchEnd_slider [simp]: "slider (handleTouchEnd now r) = slider r"
  by (simp add: handleTouchEnd_def smoothScrollToPosition_def Let_def)

lemma flick_facts:
  "isDragging flickRow" "isScrolling flickRow" "velocityX flickRow = 4 / 5"
  "startTime flickRow = 0" "raf flickRow = []" "slider flickRow = sliderAt 400"
  by (simp_all add: flickRow_def touchMoves_def handleTouchMove_def dragSample_def
        handleTouchStart_def restingRow_def refreshButtons_eq sliderAt_def Let_def)








section \<open>Overlapping animations\<close>


lemma smoothScrollTo_slider [simp]: "slider (smoothScrollTo tgt d now r) = slider r"
  by (simp add: smoothScrollTo_def)

lemma handleTouchEnd_buttons [simp]:
  "rightBtn (handleTouchEnd now r) = rightBtn r" "leftBtn (handleTouchEnd now r) = leftBtn r"
  by (simp_all add: handleTouchEnd_def smoothScrollToPosition_def Let_def)







section \<open>Button clicks\<close>

lemma animateScroll_widths:
  "scrollWidth (slider (animateScroll a t r)) = scrollWidth (slider r)
   \<and> clientWidth (slider (animateScroll a t r)) = clientWidth (slider r)"
  by (simp add: animateScroll_def Let_def split: scroller.splits)







section \<open>Touch gestures\<close>

lemma move_keeps_dragging:
  "isScrolling r \<and> isDragging r \<Longrightarrow>
   isScrolling (fst (handleTouchMove e t r)) \<and> isDragging (fst (handleTouchMove e t r))"
  by (simp add: handleTouchMove_def dragSample_def Let_def split: option.splits)

lemma animateScroll_flags:
  "isScrolling (animateScroll a t r) = isScrolling r
   \<and> isDragging (animateScroll a t r) = isDragging r"
  by (simp add: animateScroll_def refreshButtons_eq Let_def split: scroller.splits)

lemma fold_animateScroll_flags:
  "isScrolling (fold (\<lambda>a. animateScroll a t) as r) = isScrolling r
   \<and> isDragging (fold (\<lambda>a. animateScroll a t) as r) = isDragging r"
  by (induction as arbitrary: r) (simp_all add: animateScroll_flags)

lemma frame_flags:
  "isScrolling (frame t r) = isScrolling r \<and> isDragging (frame t r) = isDragging r"
  using fold_animateScroll_flags [of t "raf r" "r\<lparr>raf := []\<rparr>"] by (simp add: frame_def)

text \<open>Every event other than touchstart, touchend and mouseup leaves a drag a drag.\<close>

lemma step_keeps_dragging:
  assumes "isScrolling r \<and> isDragging r" "\<not> ends_drag e"
  shows "isScrolling (step e r) \<and> isDragging (step e r)"
proof (cases e)
  case (TouchMove s now)
  then show ?thesis using assms(1) move_keeps_dragging by simp
next
  case (AnimationFrame t)
  then show ?thesis using assms(1) frame_flags by simp
qed (use assms in \<open>simp_all add: handleMouseDown_def handleMouseMove_def clickLeft_def
      clickRight_def scrollLeftHandler_def scrollRightHandler_def smoothScrollTo_def
      fireRefreshTimer_def scrollListener_def resizeListener_def refreshButtons_eq Let_def\<close>)

lemma run_keeps_dragging:
  "isScrolling r \<and> isDragging r \<Longrightarrow> \<forall>e\<in>set es. \<not> ends_drag e \<Longrightarrow>
   isScrolling (run es r) \<and> isDragging (run es r)"
  unfolding run_def
  by (induction es arbitrary: r) (simp_all add: step_keeps_dragging)

text \<open>
  Claim C6, as stated, fails in both halves. First, a contact starts at (100, 100); its
  first move sample, at (100, 130), has the vertical delta dominate (30 against 0, above
  10): the handler returns without calling preventDefault and without recording
  anything. The next sample of the same contact, at (40, 130), is classified afresh: the
  horizontal delta 60 exceeds the vertical 30 and 10, the session starts dragging, and
  the row moves from 300 to 360. Second, a drag ends without the release of its
  contact: during the flick, the touchstart of a second finger clears both flags, and a
  mouseup on the document clears \<^verbatim>\<open>isDragging\<close>, after which a further move sample of the
  contact changes nothing and its release starts no momentum.
\<close>

theorem gesture_counterexample:
  "\<not> isScrolling touchedRow \<and> \<not> isDragging touchedRow
   \<and> handleTouchMove downSample 100 touchedRow = (touchedRow, False)
   \<and> isDragging (touchMoves [(downSample, 100), (leftSample, 200)] touchedRow)
   \<and> snd (handleTouchMove leftSample 200 (fst (handleTouchMove downSample 100 touchedRow)))
   \<and> scrollLeft (slider (touchMoves [(downSample, 100), (leftSample, 200)] touchedRow)) = 360
   \<and> isScrolling flickRow \<and> isDragging flickRow
   \<and> \<not> isScrolling secondFinger \<and> \<not> isDragging secondFinger
   \<and> \<not> isDragging flickMouseUp
   \<and> step (TouchMove (Some \<lparr>clientX = 150, clientY = 100\<rparr>) 230) flickMouseUp = flickMouseUp
   \<and> raf (step (TouchEnd 250) flickMouseUp) = []
   \<and> raf (step (TouchEnd 250) flickRow) \<noteq> []"
proof -
  have first: "\<not> isScrolling touchedRow \<and> \<not> isDragging touchedRow
   \<and> handleTouchMove downSample 100 touchedRow = (touchedRow, False)
   \<and> isDragging (touchMoves [(downSample, 100), (leftSample, 200)] touchedRow)
   \<and> snd (handleTouchMove leftSample 200 (fst (handleTouchMove downSample 100 touchedRow)))
   \<and> scrollLeft (slider (touchMoves [(downSample, 100), (leftSample, 200)] touchedRow)) = 360"
    by (simp add: touchMoves_def touchedRow_def downSample_def leftSample_def
          handleTouchMove_def dragSample_def handleTouchStart_def restingRow_facts
          sliderAt_def Let_def)
  have finger: "\<not> isScrolling secondFinger \<and> \<not> isDragging secondFinger"
    by (simp add: secondFinger_def handleTouchStart_def)
  have up: "\<not> isDragging flickMouseUp" "isScrolling flickMouseUp" "raf flickMouseUp = []"
    using flick_facts by (simp_all add: flickMouseUp_def handleMouseUp_def)
  have later: "step (TouchMove (Some \<lparr>clientX = 150, clientY = 100\<rparr>) 230) flickMouseUp
                 = flickMouseUp"
    "raf (step (TouchEnd 250) flickMouseUp) = []"
    using up by (simp_all add: handleTouchMove_def handleTouchEnd_def Let_def)
  have release: "raf (step (TouchEnd 250) flickRow) \<noteq> []"
    using flick_facts
    by (simp add: handleTouchEnd_def smoothScrollToPosition_def Let_def)
  show ?thesis
    using first finger up(1) later release flick_facts(1,2) by blast
qed

text \<open>
  Claim C6, amended. While a session is undecided, a move sample whose vertical delta
  from the origin exceeds the horizontal delta and 10 px is passed through: the handler
  changes nothing and does not call preventDefault, so the decision is not recorded and
  every later sample is classified again. An undecided sample whose horizontal delta
  exceeds the vertical delta and 10 px starts dragging and suppresses the default.
  Once the session is dragging, it stays dragging through every run of events that
  holds no touchstart, touchend or mouseup (move samples, mouse moves, clicks, frames,
  timers). Each of those three ends it: the release of the contact
  (\<^verbatim>\<open>handleTouchEnd\<close>) clears both flags, a touchstart on the row resets the session to
  undecided, and a mouseup clears \<^verbatim>\<open>isDragging\<close>.
\<close>

theorem gesture_classification:
  "(\<not> isScrolling r \<and> \<not> isDragging r
      \<and> \<bar>startY r - clientY p\<bar> > \<bar>startX r - clientX p\<bar> \<and> \<bar>startY r - clientY p\<bar> > 10
      \<longrightarrow> handleTouchMove (Some p) t r = (r, False))
   \<and> (\<not> isScrolling r \<and> \<not> isDragging r
      \<and> \<bar>startX r - clientX p\<bar> > \<bar>startY r - clientY p\<bar> \<and> \<bar>startX r - clientX p\<bar> > 10
      \<longrightarrow> isScrolling (fst (handleTouchMove (Some p) t r))
          \<and> isDragging (fst (handleTouchMove (Some p) t r))
          \<and> snd (handleTouchMove (Some p) t r))
   \<and> (isScrolling r \<and> isDragging r \<and> (\<forall>e\<in>set es. \<not> ends_drag e)
      \<longrightarrow> isScrolling (run es r) \<and> isDragging (run es r))
   \<and> (isDragging r
      \<longrightarrow> \<not> isDragging (handleTouchEnd now r) \<and> \<not> isScrolling (handleTouchEnd now r))
   \<and> \<not> isDragging (handleTouchStart p now r) \<and> \<not> isScrolling (handleTouchStart p now r)
   \<and> \<not> isDragging (handleMouseUp r)"
proof -
  have a: "\<not> isScrolling r \<and> \<not> isDragging r
      \<and> \<bar>startY r - clientY p\<bar> > \<bar>startX r - clientX p\<bar> \<and> \<bar>startY r - clientY p\<bar> > 10
      \<longrightarrow> handleTouchMove (Some p) t r = (r, False)"
    by (simp add: handleTouchMove_def Let_def)
  have b: "\<not> isScrolling r \<and> \<not> isDragging r
      \<and> \<bar>startX r - clientX p\<bar> > \<bar>startY r - clientY p\<bar> \<and> \<bar>startX r - clientX p\<bar> > 10
      \<longrightarrow> isScrolling (fst (handleTouchMove (Some p) t r))
          \<and> isDragging (fst (handleTouchMove (Some p) t r))
          \<and> snd (handleTouchMove (Some p) t r)"
    by (simp add: handleTouchMove_def dragSample_def Let_def)
  have c: "isScrolling r \<and> isDragging r \<and> (\<forall>e\<in>set es. \<not> ends_drag e)
      \<longrightarrow> isScrolling (run es r) \<and> isDragging (run es r)"
    using run_keeps_dragging [of r es] by blast
  have d: "isDragging r
      \<longrightarrow> \<not> isDragging (handleTouchEnd now r) \<and> \<not> isScrolling (handleTouchEnd now r)"
    by (simp add: handleTouchEnd_def Let_def)
  have e: "\<not> isDragging (handleTouchStart p now r) \<and> \<not> isScrolling (handleTouchStart p now r)"
    by (simp add: handleTouchStart_def)
  have f: "\<not> isDragging (handleMouseUp r)"
    by (simp add: handleMouseUp_def)
  show ?thesis
    using a b c d e f by blast
qed

theorem gesture_classification_witness:
  "handleTouchMove downSample 100 touchedRow = (touchedRow, False)
   \<and> isDragging (fst (handleTouchMove leftSample 200 touchedRow))
   \<and> isDragging (run [TouchMove (Some \<lparr>clientX = 150, clientY = 400\<rparr>) 300,
                       MouseMove mouseMove100, AnimationFrame 310, ClickRight 1280 320]
                   flickRow)
   \<and> \<not> isDragging (handleTouchEnd 250 flickRow)"
proof -
  have undecided: "\<not> isScrolling touchedRow \<and> \<not> isDragging touchedRow"
    and origin: "startX touchedRow = 100" "startY touchedRow = 100"
    by (simp_all add: touchedRow_def handleTouchStart_def)
  have down: "handleTouchMove downSample 100 touchedRow = (touchedRow, False)"
    using gesture_classification [of touchedRow "\<lparr>clientX = 100, clientY = 130\<rparr>" 100]
      undecided origin
    by (simp add: downSample_def)
  have left: "isDragging (fst (handleTouchMove leftSample 200 touchedRow))"
    using gesture_classification [of touchedRow "\<lparr>clientX = 40, clientY = 130\<rparr>" 200]
      undecided origin
    by (simp add: leftSample_def)
  have drag: "isDragging (run [TouchMove (Some \<lparr>clientX = 150, clientY = 400\<rparr>) 300,
                       MouseMove mouseMove100, AnimationFrame 310, ClickRight 1280 320]
                   flickRow)
              \<and> \<not> isDragging (handleTouchEnd 250 flickRow)"
    using gesture_classification
            [of flickRow _ _ "[TouchMove (Some \<lparr>clientX = 150, clientY = 400\<rparr>) 300,
                       MouseMove mouseMove100, AnimationFrame 310, ClickRight 1280 320]" 250]
      flick_facts(1,2)
    by simp
  show ?thesis
    using down left drag by simp
qed

section \<open>Modal dialog: opening and closing\<close>

lemma removeModalEventListeners_fields [simp]:
  "currentModal (removeModalEventListeners m) = currentModal m"
  "overlayHidden (removeModalEventListeners m) = overlayHidden m"
  "bodyOverflow (removeModalEventListeners m) = bodyOverflow m"
  "bodyModalOpen (removeModalEventListeners m) = bodyModalOpen m"
  "modalBody (removeModalEventListeners m) = modalBody m"
  "populateTimers (removeModalEventListeners m) = populateTimers m"
  "overlayPresent (removeModalEventListeners m) = overlayPresent m"
  "contentPresent (removeModalEventListeners m) = contentPresent m"
  "notifications (removeModalEventListeners m) = notifications m"
  "announcements (removeModalEventListeners m) = announcements m"
  by (simp_all add: removeModalEventListeners_def Let_def split: option.splits)

lemma setupModalInteractions_fields [simp]:
  "currentModal (setupModalInteractions m) = currentModal m"
  "overlayHidden (setupModalInteractions m) = overlayHidden m"
  "bodyOverflow (setupModalInteractions m) = bodyOverflow m"
  "bodyModalOpen (setupModalInteractions m) = bodyModalOpen m"
  "modalBody (setupModalInteractions m) = modalBody m"
  "populateTimers (setupModalInteractions m) = populateTimers m"
  "overlayPresent (setupModalInteractions m) = overlayPresent m"
  "contentPresent (setupModalInteractions m) = contentPresent m"
  "notifications (setupModalInteractions m) = notifications m"
  "announcements (setupModalInteractions m) = announcements m"
  by (simp_all add: setupModalInteractions_def Let_def)

lemma populate_fields [simp]:
  "currentModal (populate c m) = currentModal m"
  "overlayHidden (populate c m) = overlayHidden m"
  "bodyOverflow (populate c m) = bodyOverflow m"
  "bodyModalOpen (populate c m) = bodyModalOpen m"
  "populateTimers (populate c m) = populateTimers m"
  by (simp_all add: populate_def Let_def split: sum.splits)

lemma populate_body:
  "modalBody (populate c m) = (if ctype c = None then modalBody m else Details c)"
  by (simp add: populate_def createModalContent_def Let_def split: option.splits)

lemma fold_populate_fields:
  "currentModal (fold populate cs m) = currentModal m
   \<and> overlayHidden (fold populate cs m) = overlayHidden m
   \<and> bodyOverflow (fold populate cs m) = bodyOverflow m
   \<and> bodyModalOpen (fold populate cs m) = bodyModalOpen m
   \<and> populateTimers (fold populate cs m) = populateTimers m"
  by (induction cs arbitrary: m) simp_all

lemma example_resolves:
  "getContentById exampleApp ''m1'' = Some exampleItem"
  "getContentById exampleApp ''m2'' = None"
  by (simp_all add: getContentById_def exampleApp_def exampleData_def exampleHero_def
        exampleItem_def)

lemma initialModal_present:
  "overlayPresent initialModal \<and> contentPresent initialModal"
  "populateTimers initialModal = []"
  by (simp_all add: initialModal_def)

text \<open>
  What holds of \<^verbatim>\<open>openModal\<close> on a page that has the overlay and the content element. If
  the id resolves to a record \<open>c\<close> that has a type, then after \<^verbatim>\<open>openModal\<close> and the
  firing of the pending population timers \<^verbatim>\<open>AppState.currentModal\<close> is the id, the overlay
  is shown, page scroll is locked and the body shows \<open>c\<close>. If the id does not resolve,
  \<^verbatim>\<open>openModal\<close> logs the notification ``Content not found'' and changes nothing else.
\<close>

lemma openModal_typed_or_unresolved:
  assumes present: "overlayPresent m \<and> contentPresent m"
  shows "(getContentById app x = Some c \<and> ctype c \<noteq> None \<longrightarrow>
            currentModal (fireAllPopulateTimers (openModal app x m)) = Some x
          \<and> \<not> overlayHidden (fireAllPopulateTimers (openModal app x m))
          \<and> bodyOverflow (fireAllPopulateTimers (openModal app x m)) = ''hidden''
          \<and> modalBody (fireAllPopulateTimers (openModal app x m)) = Details c
          \<and> populateTimers (fireAllPopulateTimers (openModal app x m)) = [])
       \<and> (getContentById app x = None \<longrightarrow>
            openModal app x m
              = m\<lparr>notifications := notifications m @ [(''Content not found'', ''error'')]\<rparr>)"
  using present fold_populate_fields
  by (simp add: openModal_def fireAllPopulateTimers_def populate_body)

text \<open>
  Claim C4 at the input where the code departs from it. After a failed fetch the
  application holds the placeholder data, whose hero has no type. Its id resolves, and
  \<^verbatim>\<open>openModal\<close> shows the overlay with the loading placeholder; when the population timer
  fires, \<^verbatim>\<open>createModalContent\<close> throws a TypeError at \<^verbatim>\<open>content.type.replace\<close>, so the body
  is never populated: the modal stays open on the placeholder, with no close button
  handler, no modal keydown handler and no announcement.
\<close>

theorem fallback_hero_never_populated:
  "getContentById fallbackApp ''hero-featured''
     = Some \<lparr>item_id = ''hero-featured'', title = ''Featured Content'', ctype = None\<rparr>
   \<and> currentModal (fireAllPopulateTimers (openModal fallbackApp ''hero-featured'' initialModal))
       = Some ''hero-featured''
   \<and> \<not> overlayHidden
         (fireAllPopulateTimers (openModal fallbackApp ''hero-featured'' initialModal))
   \<and> populateTimers
         (fireAllPopulateTimers (openModal fallbackApp ''hero-featured'' initialModal)) = []
   \<and> modalBody (fireAllPopulateTimers (openModal fallbackApp ''hero-featured'' initialModal))
       = Placeholder
   \<and> closeClick (fireAllPopulateTimers (openModal fallbackApp ''hero-featured'' initialModal))
       = []
   \<and> docKeydown (fireAllPopulateTimers (openModal fallbackApp ''hero-featured'' initialModal))
       = []
   \<and> announcements
         (fireAllPopulateTimers (openModal fallbackApp ''hero-featured'' initialModal)) = []
   \<and> uncaught (fireAllPopulateTimers (openModal fallbackApp ''hero-featured'' initialModal))
       = [TypeError]"
  by (simp add: openModal_def fireAllPopulateTimers_def populate_def createModalContent_def
        initialModal_def getContentById_def fallbackApp_def getPlaceholderContent_def)

theorem fallback_hero_never_populated_witness:
  "overlayPresent initialModal \<and> contentPresent initialModal
   \<and> getContentById fallbackApp ''hero-featured'' \<noteq> None
   \<and> modalBody (fireAllPopulateTimers (openModal fallbackApp ''hero-featured'' initialModal))
       \<noteq> Details \<lparr>item_id = ''hero-featured'', title = ''Featured Content'', ctype = None\<rparr>"
  using fallback_hero_never_populated initialModal_present(1)
  by simp

text \<open>
  Claim C3, as stated, fails: the deferred population is not discarded. An item is
  opened on the fresh page and the modal is closed before the timer fires; when it
  fires, the body is populated all the same and the opening is announced.
\<close>

theorem population_not_discarded_counterexample:
  "currentModal (closeModal (openModal exampleApp ''m1'' initialModal)) = None
   \<and> modalBody (closeModal (openModal exampleApp ''m1'' initialModal)) = Placeholder
   \<and> modalBody (firePopulateTimer (closeModal (openModal exampleApp ''m1'' initialModal)))
       = Details exampleItem
   \<and> announcements (firePopulateTimer (closeModal (openModal exampleApp ''m1'' initialModal)))
       = [''Modal closed'', ''Modal opened for Movie One. Press Escape to close.'']"
  by (simp add: openModal_def closeModal_def firePopulateTimer_def populate_def
        setupModalInteractions_def removeModalEventListeners_def initialModal_def
        createModalContent_def getContentById_def exampleApp_def exampleData_def exampleHero_def exampleItem_def
        addEventListener_def removeEventListener_def hasCloseButton_def Let_def)

text \<open>
  Claim C3, amended. The callback of the population timer checks nothing of the modal's
  state: in any state \<open>m'\<close> it populates the body with the content \<open>c'\<close> it captured,
  provided \<^verbatim>\<open>createModalContent\<close> does not throw (the record has a type). When the modal
  was closed during the delay, the population does not reopen it: after the timer has
  fired, \<^verbatim>\<open>AppState.currentModal\<close> is still null, the overlay still hidden and page scroll
  still unlocked, while the body shows the content if it has a type and the placeholder
  if not.
\<close>

theorem population_after_close:
  assumes present: "overlayPresent m \<and> contentPresent m"
      and res: "getContentById app x = Some c"
      and idle: "populateTimers m = []"
  shows "currentModal (closeModal (openModal app x m)) = None
       \<and> populateTimers (closeModal (openModal app x m)) = [c]
       \<and> (ctype c \<noteq> None \<longrightarrow>
            modalBody (firePopulateTimer (closeModal (openModal app x m))) = Details c)
       \<and> (ctype c = None \<longrightarrow>
            modalBody (firePopulateTimer (closeModal (openModal app x m))) = Placeholder)
       \<and> currentModal (firePopulateTimer (closeModal (openModal app x m))) = None
       \<and> overlayHidden (firePopulateTimer (closeModal (openModal app x m)))
       \<and> bodyOverflow (firePopulateTimer (closeModal (openModal app x m))) = ''''
       \<and> \<not> bodyModalOpen (firePopulateTimer (closeModal (openModal app x m)))
       \<and> populateTimers (firePopulateTimer (closeModal (openModal app x m))) = []
       \<and> (ctype c' \<noteq> None \<longrightarrow> modalBody (populate c' m') = Details c')"
  using assms
  by (simp add: openModal_def closeModal_def firePopulateTimer_def populate_body Let_def)

theorem population_after_close_witness:
  "getContentById exampleApp ''m1'' = Some exampleItem
   \<and> ctype exampleItem \<noteq> None
   \<and> modalBody (firePopulateTimer (closeModal (openModal exampleApp ''m1'' initialModal)))
       = Details exampleItem
   \<and> currentModal (firePopulateTimer (closeModal (openModal exampleApp ''m1'' initialModal)))
       = None
   \<and> overlayHidden (firePopulateTimer (closeModal (openModal exampleApp ''m1'' initialModal)))
   \<and> modalBody (firePopulateTimer
         (closeModal (openModal fallbackApp ''hero-featured'' initialModal))) = Placeholder"
proof -
  have typed: "ctype exampleItem \<noteq> None"
    by (simp add: exampleItem_def)
  have hero: "getContentById fallbackApp ''hero-featured''
     = Some \<lparr>item_id = ''hero-featured'', title = ''Featured Content'', ctype = None\<rparr>"
    by (simp add: getContentById_def fallbackApp_def getPlaceholderContent_def)
  show ?thesis
    using population_after_close [OF initialModal_present(1) example_resolves(1)
            initialModal_present(2), of exampleItem]
      population_after_close [OF initialModal_present(1) hero initialModal_present(2)]
      example_resolves(1) typed
    by simp
qed

text \<open>
  Claim C5 at the input where the code departs from it. In the order open, population,
  close, the three handlers are removed by \<^verbatim>\<open>closeModal\<close>. When the modal is closed before
  the population timer fires, the timer attaches them after the close: the close
  button, the overlay and the document each carry a modal handler while
  \<^verbatim>\<open>AppState.currentModal\<close> is null.
\<close>

theorem listeners_after_early_close:
  "docKeydown (firePopulateTimer (closeModal (openModal exampleApp ''m1'' initialModal))) = [2]
   \<and> overlayClick (firePopulateTimer (closeModal (openModal exampleApp ''m1'' initialModal))) = [1]
   \<and> closeClick (firePopulateTimer (closeModal (openModal exampleApp ''m1'' initialModal))) = [0]
   \<and> currentModal (firePopulateTimer (closeModal (openModal exampleApp ''m1'' initialModal))) = None
   \<and> docKeydown (closeModal (firePopulateTimer (openModal exampleApp ''m1'' initialModal))) = []
   \<and> overlayClick (closeModal (firePopulateTimer (openModal exampleApp ''m1'' initialModal))) = []
   \<and> closeClick (closeModal (firePopulateTimer (openModal exampleApp ''m1'' initialModal))) = []"
  by (simp add: openModal_def closeModal_def firePopulateTimer_def populate_def
        setupModalInteractions_def removeModalEventListeners_def initialModal_def
        createModalContent_def getContentById_def exampleApp_def exampleData_def exampleHero_def exampleItem_def
        addEventListener_def removeEventListener_def hasCloseButton_def Let_def)

theorem listeners_after_early_close_witness:
  "overlayPresent initialModal \<and> contentPresent initialModal
   \<and> getContentById exampleApp ''m1'' = Some exampleItem
   \<and> docKeydown (firePopulateTimer (closeModal (openModal exampleApp ''m1'' initialModal)))
       \<noteq> []"
  using listeners_after_early_close initialModal_present(1) example_resolves(1)
  by simp

end
